theory Spec2Isabelle
  imports Complex_Main "HOL-Library.Sublist"
begin

section \<open>Values of the dashboard script\<close>

text \<open>
  The script \<^verbatim>\<open>streamlit-dashboard.py\<close> reads every \<^verbatim>\<open>*.json\<close> file of the
  working directory with \<^verbatim>\<open>json.load\<close>, turns the findings of each document into rows,
  builds a data frame, adds three derived columns, applies the sidebar selections and shows
  counts, charts, a table and a spreadsheet download.

  A value produced by \<^verbatim>\<open>json.load\<close> is \<^verbatim>\<open>None\<close>, a \<^verbatim>\<open>bool\<close>, an unbounded
  \<^verbatim>\<open>int\<close>, a \<^verbatim>\<open>float\<close>, a \<^verbatim>\<open>str\<close>, a \<^verbatim>\<open>list\<close> or a \<^verbatim>\<open>dict\<close> with string keys.
  The script only compares floats with integer constants and tests them for zero, both of which
  Python does exactly, so a finite float is represented by the rational number it denotes;
  \<^verbatim>\<open>json.load\<close> also accepts \<^verbatim>\<open>Infinity\<close>, \<^verbatim>\<open>-Infinity\<close> and \<^verbatim>\<open>NaN\<close>.
  A \<^verbatim>\<open>dict\<close> is the list of the members of the JSON object in document order; where a key
  occurs twice the later member wins, as in \<^verbatim>\<open>json.load\<close>.

  A Python string is a sequence of Unicode code points. It is represented by the bytes of
  its UTF-8 encoding (each code point by its UTF-8 pattern, a lone surrogate included), which
  keeps equality, concatenation and the test for a substring as they are on code points.
\<close>

datatype pyfloat = Finite rat | PosInf | NegInf | NaN

datatype json =
    JNull
  | JBool bool
  | JInt int
  | JFloat pyfloat
  | JStr string
  | JList "json list"
  | JDict "(string \<times> json) list"

text \<open>
  What ends a run early: an exception (none is caught anywhere in the script), named by its
  class, and \<^verbatim>\<open>st.stop()\<close> after the warning for an empty data frame.
\<close>

datatype error = JSONDecodeError | AttributeError | TypeError | Stopped | OtherError string

text \<open>
  A frame as it is handed to a chart, to the table on the page or to the spreadsheet writer:
  the column names and, for each row, the cells under them (\<open>None\<close> where the frame has no
  column of that name).
\<close>

record sheet =
  header :: "string list"
  body :: "json option list list"

subsection \<open>What the script takes from its libraries\<close>

text \<open>
  The script calls the interpreter, pandas, plotly and streamlit for the following, and none
  of it is in the source. Each is a parameter of the model, so that every statement holds for
  whatever these functions do:
  \<^item> \<^verbatim>\<open>str.upper\<close>, \<^verbatim>\<open>str.lower\<close> and \<^verbatim>\<open>str.capitalize\<close>, which follow the Unicode
    character database;
  \<^item> \<^verbatim>\<open>repr\<close>, the text that \<^verbatim>\<open>str\<close> gives for a float, a list or a dict;
  \<^item> the typing of a column by \<^verbatim>\<open>pd.DataFrame\<close>: \<open>stored lib column v\<close> is the cell that
    the frame holds for the value \<open>v\<close> of a column with the values \<open>column\<close> (a null beside
    strings can become \<^verbatim>\<open>NaN\<close>, an integer beside a null a float);
  \<^item> the charts of lines 145-169, the table of lines 173-180 and the spreadsheet of lines
    185-188, each of which returns what it shows or writes for the frame it is handed, or
    raises.
\<close>

record library =
  upper :: "string \<Rightarrow> string"
  lower :: "string \<Rightarrow> string"
  capitalize :: "string \<Rightarrow> string"
  repr :: "json \<Rightarrow> string"
  stored :: "json list \<Rightarrow> json \<Rightarrow> json"
  plotly_charts :: "sheet \<Rightarrow> error + unit"
  st_dataframe :: "sheet \<Rightarrow> error + sheet"
  to_excel :: "sheet \<Rightarrow> error + sheet"

subsection \<open>Python string operations\<close>

text \<open>\<^verbatim>\<open>sub in s\<close> for two strings.\<close>

fun py_in :: "string \<Rightarrow> string \<Rightarrow> bool" where
  "py_in sub [] = (sub = [])"
| "py_in sub (c # cs) = (prefix sub (c # cs) \<or> py_in sub cs)"

text \<open>
  \<^verbatim>\<open>s.split("-")[0]\<close> is the text before the first \<^verbatim>\<open>-\<close> (all of \<^verbatim>\<open>s\<close> when there is
  none), and \<^verbatim>\<open>os.path.basename\<close> the text after the last \<^verbatim>\<open>/\<close>.
\<close>

definition split_first :: "char \<Rightarrow> string \<Rightarrow> string" where
  "split_first sep s = takeWhile (\<lambda>c. c \<noteq> sep) s"

definition basename :: "string \<Rightarrow> string" where
  "basename p = rev (takeWhile (\<lambda>c. c \<noteq> CHR ''/'') (rev p))"

text \<open>
  The characters of a string, one string for each code point: a byte of the form
  \<^verbatim>\<open>10xxxxxx\<close> continues the code point before it.
\<close>

definition is_continuation :: "char \<Rightarrow> bool" where
  "is_continuation c = (digit7 c \<and> \<not> digit6 c)"

function code_points :: "string \<Rightarrow> string list" where
  "code_points [] = []"
| "code_points (c # cs) =
     (c # takeWhile is_continuation cs) # code_points (dropWhile is_continuation cs)"
  by pat_completeness auto
termination
  by (relation "measure length") (auto simp: length_dropWhile_le less_Suc_eq_le)

subsection \<open>Python built-ins on JSON values\<close>

text \<open>Truth value testing, as used by \<^verbatim>\<open>if findings:\<close> and by \<^verbatim>\<open>or\<close>.\<close>

fun truthy :: "json \<Rightarrow> bool" where
  "truthy JNull = False"
| "truthy (JBool b) = b"
| "truthy (JInt i) = (i \<noteq> 0)"
| "truthy (JFloat f) = (f \<noteq> Finite 0)"
| "truthy (JStr s) = (s \<noteq> [])"
| "truthy (JList xs) = (xs \<noteq> [])"
| "truthy (JDict kvs) = (kvs \<noteq> [])"

definition py_or :: "json \<Rightarrow> json \<Rightarrow> json" where
  "py_or a b = (if truthy a then a else b)"

text \<open>\<^verbatim>\<open>d.get(k, default)\<close> on a dict, and on any value: only a dict has the method.\<close>

definition dget :: "(string \<times> json) list \<Rightarrow> string \<Rightarrow> json \<Rightarrow> json" where
  "dget kvs k d = (case map_of (rev kvs) k of Some v \<Rightarrow> v | None \<Rightarrow> d)"

fun py_get :: "json \<Rightarrow> string \<Rightarrow> json \<Rightarrow> error + json" where
  "py_get (JDict kvs) k d = Inr (dget kvs k d)"
| "py_get _ k d = Inl AttributeError"

text \<open>
  \<^verbatim>\<open>for fnd in findings\<close>: a list yields its elements, a dict its keys, a string its
  characters; nothing else is iterable.
\<close>

fun py_iter :: "json \<Rightarrow> error + json list" where
  "py_iter (JList xs) = Inr xs"
| "py_iter (JDict kvs) = Inr (map JStr (rev (remdups (rev (map fst kvs)))))"
| "py_iter (JStr s) = Inr (map JStr (code_points s))"
| "py_iter _ = Inl TypeError"

text \<open>
  \<^verbatim>\<open>str(v)\<close>: a string is itself, \<^verbatim>\<open>None\<close>, a \<^verbatim>\<open>bool\<close> and an \<^verbatim>\<open>int\<close> have the
  texts below, and the text of a float, a list or a dict is its \<^verbatim>\<open>repr\<close>.
\<close>

fun nat_digits :: "nat \<Rightarrow> string" where
  "nat_digits n =
     (if n < 10 then [''0123456789'' ! n]
      else nat_digits (n div 10) @ [''0123456789'' ! (n mod 10)])"

declare nat_digits.simps [simp del]

fun py_str :: "library \<Rightarrow> json \<Rightarrow> string" where
  "py_str lib (JStr s) = s"
| "py_str lib JNull = ''None''"
| "py_str lib (JBool b) = (if b then ''True'' else ''False'')"
| "py_str lib (JInt i) = (if i < 0 then CHR ''-'' # nat_digits (nat (- i)) else nat_digits (nat i))"
| "py_str lib v = repr lib v"

text \<open>
  \<^verbatim>\<open>isinstance(sev, (int, float))\<close> holds of a \<^verbatim>\<open>bool\<close> too, which counts as 1 or 0;
  \<^verbatim>\<open>sev >= k\<close> for an integer constant \<open>k\<close> is exact, and false of \<^verbatim>\<open>NaN\<close>.
\<close>

fun is_number :: "json \<Rightarrow> bool" where
  "is_number (JBool b) = True"
| "is_number (JInt i) = True"
| "is_number (JFloat f) = True"
| "is_number _ = False"

fun float_ge :: "pyfloat \<Rightarrow> int \<Rightarrow> bool" where
  "float_ge (Finite r) k = (of_int k \<le> r)"
| "float_ge PosInf k = True"
| "float_ge NegInf k = False"
| "float_ge NaN k = False"

fun num_ge :: "json \<Rightarrow> int \<Rightarrow> bool" where
  "num_ge (JInt i) k = (k \<le> i)"
| "num_ge (JBool b) k = (k \<le> (if b then 1 else 0))"
| "num_ge (JFloat f) k = float_ge f k"
| "num_ge _ k = False"

section \<open>Loading and normalising the findings\<close>

text \<open>
  One row of \<^verbatim>\<open>records\<close>: the dict appended at lines 44-54 and 57-67. \<^verbatim>\<open>Service\<close>
  and \<^verbatim>\<open>Resource\<close> are always strings; every other cell is whatever value the document
  holds under the key.
\<close>

record finding =
  Service :: string
  Account :: json
  Region :: json
  Resource :: string
  Severity :: json
  Title :: json
  Description :: json
  Status :: json
  CreatedAt :: json

text \<open>Line 21: \<^verbatim>\<open>os.path.basename(file).split("-")[0].capitalize()\<close>.\<close>

definition service_name :: "library \<Rightarrow> string \<Rightarrow> string" where
  "service_name lib file = capitalize lib (split_first CHR ''-'' (basename file))"

text \<open>Lines 32-42: the severity label of one finding.\<close>

definition sev_label :: "library \<Rightarrow> json \<Rightarrow> json" where
  "sev_label lib sev =
     (case sev of
        JDict kvs \<Rightarrow> py_or (py_or (dget kvs ''Label'' JNull) (dget kvs ''Normalized'' JNull)) (JStr ''Medium'')
      | _ \<Rightarrow>
        if is_number sev then
          JStr (if num_ge sev 8 then ''Critical''
                else if num_ge sev 5 then ''High''
                else if num_ge sev 3 then ''Medium''
                else ''Low'')
        else JStr (capitalize lib (py_str lib sev)))"

text \<open>
  Lines 29-54 for one element \<^verbatim>\<open>fnd\<close> of the findings. \<^verbatim>\<open>fnd.get\<close> exists only on a
  dict, and so does the \<^verbatim>\<open>.get\<close> applied to the value under \<^verbatim>\<open>Workflow\<close>.
\<close>

definition record_of_finding :: "library \<Rightarrow> string \<Rightarrow> json \<Rightarrow> error + finding" where
  "record_of_finding lib service fnd =
     (case fnd of
        JDict kvs \<Rightarrow>
          (case py_get (dget kvs ''Workflow'' (JDict [])) ''Status'' (dget kvs ''status'' (JStr ''ACTIVE'')) of
             Inl e \<Rightarrow> Inl e
           | Inr status \<Rightarrow>
               Inr \<lparr> Service = service,
                     Account = dget kvs ''AwsAccountId'' (dget kvs ''resourceOwnerAccount'' (JStr '''')),
                     Region = dget kvs ''Region'' (JStr ''us-east-2''),
                     Resource = py_str lib (dget kvs ''Resource'' (dget kvs ''resource'' (JStr ''''))),
                     Severity = sev_label lib (dget kvs ''Severity'' (JStr ''Medium'')),
                     Title = dget kvs ''Title'' (dget kvs ''id'' (JStr (''Finding from '' @ service))),
                     Description = dget kvs ''Description'' (dget kvs ''findingDetails'' (JStr '''')),
                     Status = status,
                     CreatedAt = dget kvs ''CreatedAt'' (JStr '''') \<rparr>)
      | _ \<Rightarrow> Inl AttributeError)"

text \<open>Lines 57-67: the row for a document without findings.\<close>

definition placeholder :: "string \<Rightarrow> finding" where
  "placeholder service =
     \<lparr> Service = service,
       Account = JStr '''',
       Region = JStr ''us-east-2'',
       Resource = '''',
       Severity = JStr ''Informational'',
       Title = JStr (''No critical findings for '' @ service),
       Description = JStr (service @ '' data loaded but no security findings reported.''),
       Status = JStr ''N/A'',
       CreatedAt = JStr '''' \<rparr>"

text \<open>Lines 28-54: the loop over the findings stops at the first element that raises.\<close>

fun records_of_findings :: "library \<Rightarrow> string \<Rightarrow> json list \<Rightarrow> error + finding list" where
  "records_of_findings lib service [] = Inr []"
| "records_of_findings lib service (fnd # rest) =
     (case record_of_finding lib service fnd of
        Inl e \<Rightarrow> Inl e
      | Inr r \<Rightarrow>
          (case records_of_findings lib service rest of
             Inl e \<Rightarrow> Inl e
           | Inr rs \<Rightarrow> Inr (r # rs)))"

text \<open>Lines 26-67 for one parsed document \<^verbatim>\<open>data\<close>.\<close>

definition records_of_doc :: "library \<Rightarrow> string \<Rightarrow> json \<Rightarrow> error + finding list" where
  "records_of_doc lib service data =
     (case data of
        JDict kvs \<Rightarrow>
          (let findings = dget kvs ''Findings'' (dget kvs ''findings'' (JList [])) in
           if truthy findings then
             (case py_iter findings of
                Inl e \<Rightarrow> Inl e
              | Inr elems \<Rightarrow> records_of_findings lib service elems)
           else Inr [placeholder service])
      | _ \<Rightarrow> Inl AttributeError)"

text \<open>
  Lines 18-67. A file is its name, as \<^verbatim>\<open>glob\<close> lists it, with what \<^verbatim>\<open>json.load\<close> does
  on it: the parsed value, or the exception it raises. There is no \<^verbatim>\<open>try\<close> in the script,
  so the first exception ends the run.
\<close>

fun load_loop :: "library \<Rightarrow> (string \<times> (error + json)) list \<Rightarrow> finding list \<Rightarrow> error + finding list" where
  "load_loop lib [] records = Inr records"
| "load_loop lib ((file, loaded) # rest) records =
     (case loaded of
        Inl e \<Rightarrow> Inl e
      | Inr data \<Rightarrow>
          (case records_of_doc lib (service_name lib file) data of
             Inl e \<Rightarrow> Inl e
           | Inr rs \<Rightarrow> load_loop lib rest (records @ rs)))"

definition load_records :: "library \<Rightarrow> (string \<times> (error + json)) list \<Rightarrow> error + finding list" where
  "load_records lib files = load_loop lib files []"

section \<open>The data frame and its derived columns\<close>

text \<open>
  Line 70, \<^verbatim>\<open>pd.DataFrame(records)\<close>: one column for each key, each cell stored as pandas
  types its column. The columns \<^verbatim>\<open>Service\<close> and \<^verbatim>\<open>Resource\<close> hold strings only, and a
  string is stored as it is.
\<close>

definition DataFrame :: "library \<Rightarrow> finding list \<Rightarrow> finding list" where
  "DataFrame lib records =
     map (\<lambda>r. \<lparr> Service = Service r,
                Account = stored lib (map Account records) (Account r),
                Region = stored lib (map Region records) (Region r),
                Resource = Resource r,
                Severity = stored lib (map Severity records) (Severity r),
                Title = stored lib (map Title records) (Title r),
                Description = stored lib (map Description records) (Description r),
                Status = stored lib (map Status records) (Status r),
                CreatedAt = stored lib (map CreatedAt records) (CreatedAt r) \<rparr>) records"

text \<open>
  Line 76, \<^verbatim>\<open>df["Severity"].str.upper()\<close>: a string cell is upper-cased and any other cell
  becomes \<^verbatim>\<open>NaN\<close>. (When pandas has typed the whole column as numeric, the \<^verbatim>\<open>.str\<close>
  accessor itself raises \<^verbatim>\<open>AttributeError\<close>; a \<^verbatim>\<open>NaN\<close> cell raises the same exception
  at line 117, so the run ends the same way.)
\<close>

fun str_upper :: "library \<Rightarrow> json \<Rightarrow> json" where
  "str_upper lib (JStr s) = JStr (upper lib s)"
| "str_upper lib _ = JFloat NaN"

definition upper_severity :: "library \<Rightarrow> finding \<Rightarrow> finding" where
  "upper_severity lib r = r\<lparr>Severity := str_upper lib (Severity r)\<rparr>"

text \<open>Lines 79-88: \<^verbatim>\<open>str(service).lower()\<close> and the substring tests.\<close>

definition team_map :: "library \<Rightarrow> json \<Rightarrow> string" where
  "team_map lib service =
     (let s = lower lib (py_str lib service) in
      if py_in ''guardduty'' s \<or> py_in ''securityhub'' s then ''CAPSA Team''
      else if py_in ''inspector'' s \<or> py_in ''accessanalyzer'' s then ''BCG Team''
      else if py_in ''detective'' s then ''Both BCG & CAPSA Team''
      else ''Others'')"

text \<open>Lines 90-114. \<^verbatim>\<open>sev.lower()\<close>: only a string has the method.\<close>

fun py_lower :: "library \<Rightarrow> json \<Rightarrow> error + string" where
  "py_lower lib (JStr s) = Inr (lower lib s)"
| "py_lower lib _ = Inl AttributeError"

definition fix_timeline :: "library \<Rightarrow> json \<Rightarrow> error + string" where
  "fix_timeline lib sev =
     (case py_lower lib sev of
        Inl e \<Rightarrow> Inl e
      | Inr s \<Rightarrow>
          Inr (if s = ''critical'' then ''5 Days''
               else if s = ''high'' then ''1 Week''
               else if s = ''medium'' then ''2 Weeks''
               else if s = ''low'' then ''3 Weeks''
               else ''N/A''))"

definition fix_cost :: "library \<Rightarrow> json \<Rightarrow> error + string" where
  "fix_cost lib sev =
     (case py_lower lib sev of
        Inl e \<Rightarrow> Inl e
      | Inr s \<Rightarrow>
          Inr (if s = ''critical'' then ''$250/hour''
               else if s = ''high'' then ''$150/hour''
               else if s = ''medium'' then ''$75/hour''
               else if s = ''low'' then ''$25/hour''
               else ''Minimal''))"

text \<open>A row of the data frame after lines 116-118.\<close>

record drow = finding +
  Team :: string
  Fix_Timeline :: string
  Cost_to_Fix :: string

text \<open>\<^verbatim>\<open>column.apply(f)\<close> calls \<open>f\<close> on the cells in order and stops at the first exception.\<close>

fun apply_col :: "('a \<Rightarrow> error + 'b) \<Rightarrow> 'a list \<Rightarrow> error + 'b list" where
  "apply_col f [] = Inr []"
| "apply_col f (x # xs) =
     (case f x of
        Inl e \<Rightarrow> Inl e
      | Inr y \<Rightarrow> (case apply_col f xs of Inl e \<Rightarrow> Inl e | Inr ys \<Rightarrow> Inr (y # ys)))"

definition add_columns :: "finding \<Rightarrow> string \<times> string \<times> string \<Rightarrow> drow" where
  "add_columns r tfc =
     (case tfc of (t, f, c) \<Rightarrow>
        \<lparr> Service = Service r, Account = Account r, Region = Region r, Resource = Resource r,
          Severity = Severity r, Title = Title r, Description = Description r, Status = Status r,
          CreatedAt = CreatedAt r, Team = t, Fix_Timeline = f, Cost_to_Fix = c \<rparr>)"

text \<open>Lines 116-118: the three columns are computed one after the other.\<close>

definition derive_columns :: "library \<Rightarrow> finding list \<Rightarrow> error + drow list" where
  "derive_columns lib df =
     (let team = map (\<lambda>r. team_map lib (JStr (Service r))) df in
      case apply_col (fix_timeline lib) (map Severity df) of
        Inl e \<Rightarrow> Inl e
      | Inr timeline \<Rightarrow>
          (case apply_col (fix_cost lib) (map Severity df) of
             Inl e \<Rightarrow> Inl e
           | Inr cost \<Rightarrow> Inr (map2 add_columns df (zip team (zip timeline cost)))))"

text \<open>Lines 70-118: the table, or the stop on an empty data frame.\<close>

definition build_table :: "library \<Rightarrow> finding list \<Rightarrow> error + drow list" where
  "build_table lib records =
     (if records = [] then Inl Stopped
      else derive_columns lib (map (upper_severity lib) (DataFrame lib records)))"

text \<open>Lines 18-118: from the files to the table with its derived columns.\<close>

definition normalized_table :: "library \<Rightarrow> (string \<times> (error + json)) list \<Rightarrow> error + drow list" where
  "normalized_table lib files =
     (case load_records lib files of
        Inl e \<Rightarrow> Inl e
      | Inr records \<Rightarrow> build_table lib records)"

section \<open>Filters, counts, table and export\<close>

text \<open>
  Lines 127-133. A selection is the list a \<^verbatim>\<open>multiselect\<close> returns; an empty list is
  falsy, so its filter is skipped. \<^verbatim>\<open>isin\<close> keeps the rows whose cell is in the list.
\<close>

definition isin :: "('r \<Rightarrow> 'c) \<Rightarrow> 'c list \<Rightarrow> 'r list \<Rightarrow> 'r list" where
  "isin col selected df = filter (\<lambda>r. col r \<in> set selected) df"

definition apply_filters :: "string list \<Rightarrow> json list \<Rightarrow> string list \<Rightarrow> drow list \<Rightarrow> drow list" where
  "apply_filters selected_services selected_severity selected_team df =
     (let filtered = df;
          filtered = (if selected_services \<noteq> [] then isin Service selected_services filtered else filtered);
          filtered = (if selected_severity \<noteq> [] then isin Severity selected_severity filtered else filtered);
          filtered = (if selected_team \<noteq> [] then isin Team selected_team filtered else filtered)
      in filtered)"

text \<open>Lines 137-140: the four numbers of the summary.\<close>

definition metric_total :: "drow list \<Rightarrow> nat" where
  "metric_total filtered = length filtered"

definition metric_critical :: "drow list \<Rightarrow> nat" where
  "metric_critical filtered = length (filter (\<lambda>r. Severity r = JStr ''CRITICAL'') filtered)"

definition metric_high :: "drow list \<Rightarrow> nat" where
  "metric_high filtered = length (filter (\<lambda>r. Severity r = JStr ''HIGH'') filtered)"

definition metric_medium_low :: "drow list \<Rightarrow> nat" where
  "metric_medium_low filtered = length (isin Severity [JStr ''MEDIUM'', JStr ''LOW''] filtered)"

text \<open>
  The columns of the data frame: the keys of the dicts in \<^verbatim>\<open>records\<close>, in the order the
  dicts list them, then the three columns added at lines 116-118.
\<close>

definition df_columns :: "string list" where
  "df_columns =
     [''Service'', ''Account'', ''Region'', ''Resource'', ''Severity'', ''Title'',
      ''Description'', ''Status'', ''CreatedAt'']
     @ [''Team'', ''Fix Timeline'', ''Cost to Fix (Est.)'']"

text \<open>The cell of a row under a column name.\<close>

definition cell :: "drow \<Rightarrow> string \<Rightarrow> json option" where
  "cell r c =
     map_of
       [(''Service'', JStr (Service r)), (''Account'', Account r), (''Region'', Region r),
        (''Resource'', JStr (Resource r)), (''Severity'', Severity r), (''Title'', Title r),
        (''Description'', Description r), (''Status'', Status r), (''CreatedAt'', CreatedAt r),
        (''Team'', JStr (Team r)), (''Fix Timeline'', JStr (Fix_Timeline r)),
        (''Cost to Fix (Est.)'', JStr (Cost_to_Fix r))] c"

text \<open>
  \<^verbatim>\<open>df[[...]]\<close>, the frame of the named columns in the order given, and the whole frame.
  Neither has an index column: line 179 hides the index and line 187 passes
  \<^verbatim>\<open>index=False\<close>.
\<close>

definition select_columns :: "string list \<Rightarrow> drow list \<Rightarrow> sheet" where
  "select_columns cols df = \<lparr> header = cols, body = map (\<lambda>r. map (cell r) cols) df \<rparr>"

definition frame :: "drow list \<Rightarrow> sheet" where
  "frame df = select_columns df_columns df"

text \<open>Lines 174-177: the frame handed to \<^verbatim>\<open>st.dataframe\<close>.\<close>

definition display_table :: "drow list \<Rightarrow> sheet" where
  "display_table filtered =
     select_columns
       [''Service'', ''Severity'', ''Team'', ''Fix Timeline'', ''Cost to Fix (Est.)'',
        ''Title'', ''Description'', ''Account'', ''Region'', ''Status'']
       filtered"

text \<open>
  The whole run, from the files to what the page shows for the given selections: the four
  counts, then the charts, the table and the spreadsheet, in the order of the script. Each of
  the last three is made by its library from the frame it is handed and can raise, which ends
  the run.
\<close>

record page =
  total :: nat
  critical :: nat
  high :: nat
  medium_low :: nat
  shown :: sheet
  excel :: sheet

definition dashboard ::
  "library \<Rightarrow> (string \<times> (error + json)) list \<Rightarrow> string list \<Rightarrow> json list \<Rightarrow> string list \<Rightarrow> error + page" where
  "dashboard lib files selected_services selected_severity selected_team =
     (case normalized_table lib files of
        Inl e \<Rightarrow> Inl e
      | Inr df \<Rightarrow>
          (let filtered = apply_filters selected_services selected_severity selected_team df in
           case plotly_charts lib (frame filtered) of
             Inl e \<Rightarrow> Inl e
           | Inr figures \<Rightarrow>
               (case st_dataframe lib (display_table filtered) of
                  Inl e \<Rightarrow> Inl e
                | Inr table \<Rightarrow>
                    (case to_excel lib (frame filtered) of
                       Inl e \<Rightarrow> Inl e
                     | Inr workbook \<Rightarrow>
                         Inr \<lparr> total = metric_total filtered,
                               critical = metric_critical filtered,
                               high = metric_high filtered,
                               medium_low = metric_medium_low filtered,
                               shown = table,
                               excel = workbook \<rparr>))))"

section \<open>Notions used to state the properties\<close>

text \<open>
  What is known of the library and used below: on a string of ASCII characters the three case
  conversions change the 26 letters and nothing else, and pandas stores a string as it is,
  whatever else its column holds.
\<close>

definition to_upper :: "char \<Rightarrow> char" where
  "to_upper c =
     (case map_of (zip ''abcdefghijklmnopqrstuvwxyz'' ''ABCDEFGHIJKLMNOPQRSTUVWXYZ'') c of
        Some u \<Rightarrow> u
      | None \<Rightarrow> c)"

definition to_lower :: "char \<Rightarrow> char" where
  "to_lower c =
     (case map_of (zip ''ABCDEFGHIJKLMNOPQRSTUVWXYZ'' ''abcdefghijklmnopqrstuvwxyz'') c of
        Some l \<Rightarrow> l
      | None \<Rightarrow> c)"

definition ascii_capitalize :: "string \<Rightarrow> string" where
  "ascii_capitalize s = (case s of [] \<Rightarrow> [] | c # cs \<Rightarrow> to_upper c # map to_lower cs)"

definition ascii :: "string \<Rightarrow> bool" where
  "ascii s = list_all (\<lambda>c. \<not> digit7 c) s"

definition python_library :: "library \<Rightarrow> bool" where
  "python_library lib \<longleftrightarrow>
     (\<forall>s. ascii s \<longrightarrow>
        upper lib s = map to_upper s \<and> lower lib s = map to_lower s
        \<and> capitalize lib s = ascii_capitalize s)
     \<and> (\<forall>column s. stored lib column (JStr s) = JStr s)"

text \<open>
  An instance of the library, to run the model on concrete files. Its case conversions are
  Python's on ASCII text and on the dotless i (U+0131, the bytes C4 B1, whose upper case is
  \<^verbatim>\<open>I\<close> and which is its own lower case); it stores every cell as it is given, as pandas
  does in a column of strings or of mixed values; its charts, table and spreadsheet accept
  every frame and show or write it as it is; its \<^verbatim>\<open>repr\<close> is not used by any run below.
\<close>

fun example_upper :: "string \<Rightarrow> string" where
  "example_upper (a # b # cs) =
     (if a = CHR 0xC4 \<and> b = CHR 0xB1 then CHR ''I'' # example_upper cs
      else to_upper a # example_upper (b # cs))"
| "example_upper [a] = [to_upper a]"
| "example_upper [] = []"

definition example_library :: library where
  "example_library =
     \<lparr> upper = example_upper,
       lower = map to_lower,
       capitalize = ascii_capitalize,
       repr = (\<lambda>v. []),
       stored = (\<lambda>column v. v),
       plotly_charts = (\<lambda>f. Inr ()),
       st_dataframe = Inr,
       to_excel = Inr \<rparr>"

text \<open>
  Two strings differ only in letter case when they have the same upper-case form or the same
  lower-case form.
\<close>

definition differ_only_in_case :: "library \<Rightarrow> string \<Rightarrow> string \<Rightarrow> bool" where
  "differ_only_in_case lib s t = (upper lib s = upper lib t \<or> lower lib s = lower lib t)"

text \<open>
  The shapes on which the extraction of one document returns: the document is a dict; its
  findings are falsy, or a list of dicts in each of which the value under \<^verbatim>\<open>Workflow\<close>,
  when there is one, is a dict.
\<close>

definition finding_shape_ok :: "json \<Rightarrow> bool" where
  "finding_shape_ok fnd =
     (case fnd of
        JDict kvs \<Rightarrow> (case dget kvs ''Workflow'' (JDict []) of JDict w \<Rightarrow> True | _ \<Rightarrow> False)
      | _ \<Rightarrow> False)"

definition doc_shape_ok :: "json \<Rightarrow> bool" where
  "doc_shape_ok data =
     (case data of
        JDict kvs \<Rightarrow>
          (case dget kvs ''Findings'' (dget kvs ''findings'' (JList [])) of
             JList elems \<Rightarrow> list_all finding_shape_ok elems
           | findings \<Rightarrow> \<not> truthy findings)
      | _ \<Rightarrow> False)"

section \<open>Auxiliary facts\<close>

lemma to_lower_to_upper: "to_lower (to_upper c) = to_lower c"
  by (simp add: to_lower_def to_upper_def)

lemma ascii_upper_lower:
  "map to_upper s = map to_upper t \<Longrightarrow> map to_lower s = map to_lower t"
proof -
  assume "map to_upper s = map to_upper t"
  then have "map to_lower (map to_upper s) = map to_lower (map to_upper t)" by simp
  then show ?thesis by (simp add: comp_def to_lower_to_upper)
qed

lemma example_upper_ascii: "ascii s \<Longrightarrow> example_upper s = map to_upper s"
  by (induction s rule: example_upper.induct) (auto simp: ascii_def)

lemma python_library_example: "python_library example_library"
  by (simp add: python_library_def example_library_def example_upper_ascii)

lemma code_points_nonempty: "s \<noteq> [] \<Longrightarrow> code_points s \<noteq> []"
  by (cases s) simp_all

lemma apply_col_Inr:
  "apply_col f xs = Inr ys \<longleftrightarrow> list_all2 (\<lambda>x y. f x = Inr y) xs ys"
proof (induction xs arbitrary: ys)
  case Nil
  then show ?case by auto
next
  case (Cons x xs)
  show ?case
  proof (cases "f x")
    case (Inl e)
    then show ?thesis by (auto simp: list_all2_Cons1)
  next
    case (Inr y)
    then show ?thesis using Cons.IH
      by (cases "apply_col f xs") (auto simp: list_all2_Cons1)
  qed
qed

lemma fix_timeline_Inr: "fix_timeline lib v = Inr t \<Longrightarrow> \<exists>s. v = JStr s"
  by (cases v) (auto simp: fix_timeline_def)

lemma derive_columns_Inr:
  assumes "derive_columns lib df = Inr rows"
  shows "length rows = length df"
    and "i < length df \<Longrightarrow>
          rows ! i = add_columns (df ! i)
            (team_map lib (JStr (Service (df ! i))), projr (fix_timeline lib (Severity (df ! i))),
             projr (fix_cost lib (Severity (df ! i))))
          \<and> (\<exists>s. Severity (df ! i) = JStr s)"
proof -
  from assms obtain tl cs where
    tl: "apply_col (fix_timeline lib) (map Severity df) = Inr tl" and
    cs: "apply_col (fix_cost lib) (map Severity df) = Inr cs" and
    rows: "rows = map2 add_columns df (zip (map (\<lambda>r. team_map lib (JStr (Service r))) df) (zip tl cs))"
    by (auto simp: derive_columns_def Let_def split: sum.splits)
  from tl have l1: "length tl = length df"
    and t: "\<And>j. j < length df \<Longrightarrow> fix_timeline lib (Severity (df ! j)) = Inr (tl ! j)"
    by (auto simp: apply_col_Inr list_all2_conv_all_nth)
  from cs have l2: "length cs = length df"
    and c: "\<And>j. j < length df \<Longrightarrow> fix_cost lib (Severity (df ! j)) = Inr (cs ! j)"
    by (auto simp: apply_col_Inr list_all2_conv_all_nth)
  show "length rows = length df" using rows l1 l2 by simp
  show "rows ! i = add_columns (df ! i)
            (team_map lib (JStr (Service (df ! i))), projr (fix_timeline lib (Severity (df ! i))),
             projr (fix_cost lib (Severity (df ! i))))
          \<and> (\<exists>s. Severity (df ! i) = JStr s)" if "i < length df"
    using that rows l1 l2 t[OF that] c[OF that] fix_timeline_Inr[OF t[OF that]] by simp
qed

lemma load_loop_append:
  "load_loop lib (pre @ rest) acc =
     (case load_loop lib pre acc of Inl e \<Rightarrow> Inl e | Inr rs \<Rightarrow> load_loop lib rest rs)"
  by (induction lib pre acc rule: load_loop.induct) (auto split: sum.splits)

lemma record_of_finding_Inr:
  "(\<exists>r. record_of_finding lib service fnd = Inr r) \<longleftrightarrow> finding_shape_ok fnd"
  by (auto simp: record_of_finding_def finding_shape_ok_def split: json.splits sum.splits)

lemma record_of_finding_Inl:
  "record_of_finding lib service fnd = Inl e \<Longrightarrow> e = AttributeError"
  by (auto simp: record_of_finding_def split: json.splits sum.splits elim: py_get.elims)

lemma records_of_findings_Inr:
  "(\<exists>rs. records_of_findings lib service elems = Inr rs) \<longleftrightarrow> list_all finding_shape_ok elems"
proof (induction elems)
  case Nil
  then show ?case by simp
next
  case (Cons fnd elems)
  show ?case
  proof (cases "record_of_finding lib service fnd")
    case (Inl e)
    then show ?thesis using record_of_finding_Inr[of lib service fnd] by auto
  next
    case (Inr r)
    then show ?thesis using record_of_finding_Inr[of lib service fnd] Cons.IH
      by (cases "records_of_findings lib service elems") auto
  qed
qed

lemma dget_absent: "k \<notin> fst ` set kvs \<Longrightarrow> dget kvs k d = d"
  by (simp add: dget_def map_of_eq_None_iff[THEN iffD2])

lemma records_of_findings_JStr:
  "ks \<noteq> [] \<Longrightarrow> records_of_findings lib service (map JStr ks) = Inl AttributeError"
  by (cases ks) (auto simp: record_of_finding_def)

lemma records_of_findings_Inl:
  "records_of_findings lib service elems = Inl e \<Longrightarrow> e = AttributeError"
  by (induction elems) (auto split: sum.splits dest: record_of_finding_Inl)

lemma records_of_findings_nonempty:
  "elems \<noteq> [] \<Longrightarrow> records_of_findings lib service elems = Inr rs \<Longrightarrow> rs \<noteq> []"
  by (cases elems) (auto split: sum.splits)

lemma build_table_rows:
  assumes "build_table lib records = Inr df"
  shows "length df = length records"
    and "i < length records \<Longrightarrow>
           \<exists>s. stored lib (map Severity records) (Severity (records ! i)) = JStr s
              \<and> Severity (df ! i) = JStr (upper lib s)
              \<and> Service (df ! i) = Service (records ! i)
              \<and> Team (df ! i) = team_map lib (JStr (Service (records ! i)))
              \<and> fix_timeline lib (JStr (upper lib s)) = Inr (Fix_Timeline (df ! i))
              \<and> fix_cost lib (JStr (upper lib s)) = Inr (Cost_to_Fix (df ! i))"
proof -
  let ?typed = "map (upper_severity lib) (DataFrame lib records)"
  from assms have d: "derive_columns lib ?typed = Inr df"
    by (auto simp: build_table_def split: if_splits)
  have len: "length ?typed = length records" by (simp add: DataFrame_def)
  show "length df = length records" using derive_columns_Inr(1)[OF d] len by simp
  show "\<exists>s. stored lib (map Severity records) (Severity (records ! i)) = JStr s
              \<and> Severity (df ! i) = JStr (upper lib s)
              \<and> Service (df ! i) = Service (records ! i)
              \<and> Team (df ! i) = team_map lib (JStr (Service (records ! i)))
              \<and> fix_timeline lib (JStr (upper lib s)) = Inr (Fix_Timeline (df ! i))
              \<and> fix_cost lib (JStr (upper lib s)) = Inr (Cost_to_Fix (df ! i))"
    if i: "i < length records"
  proof -
    from i len have i': "i < length ?typed" by simp
    have sev: "Severity (?typed ! i) = str_upper lib (stored lib (map Severity records) (Severity (records ! i)))"
      and svc: "Service (?typed ! i) = Service (records ! i)"
      using i by (simp_all add: DataFrame_def upper_severity_def)
    from derive_columns_Inr(2)[OF d i'] obtain u where
      row: "df ! i = add_columns (?typed ! i)
            (team_map lib (JStr (Service (?typed ! i))), projr (fix_timeline lib (Severity (?typed ! i))),
             projr (fix_cost lib (Severity (?typed ! i))))"
      and u: "Severity (?typed ! i) = JStr u" by blast
    from u sev obtain s where s: "stored lib (map Severity records) (Severity (records ! i)) = JStr s"
      and us: "u = upper lib s"
      by (cases "stored lib (map Severity records) (Severity (records ! i))") auto
    have "fix_timeline lib (JStr u) = Inr (projr (fix_timeline lib (JStr u)))"
      and "fix_cost lib (JStr u) = Inr (projr (fix_cost lib (JStr u)))"
      by (simp_all add: fix_timeline_def fix_cost_def)
    then show ?thesis using row u s us svc
      by (auto simp: add_columns_def)
  qed
qed

section \<open>The claims\<close>

subsection \<open>C1\<close>

text \<open>
  Claim C1, as the script has it. There is no exception handler around \<^verbatim>\<open>json.load\<close>: a
  document that fails to parse raises, and the exception ends the run. When the documents
  before it load, the run ends with exactly that exception; in any case, a list of files that
  holds an unparseable document gives no records, no table and no page, whatever the other
  documents are.
\<close>

theorem load_aborts_on_parse_failure:
  "(load_records lib pre = Inr rs \<longrightarrow> load_records lib (pre @ (fname, Inl e) # post) = Inl e)
   \<and> ((fname, Inl e) \<in> set files \<longrightarrow>
        (\<exists>e'. load_records lib files = Inl e' \<and> dashboard lib files ss sv st = Inl e'))"
proof (intro conjI impI)
  assume "load_records lib pre = Inr rs"
  then show "load_records lib (pre @ (fname, Inl e) # post) = Inl e"
    by (simp add: load_records_def load_loop_append)
next
  assume "(fname, Inl e) \<in> set files"
  then obtain pre post where files: "files = pre @ (fname, Inl e) # post"
    by (auto dest: split_list)
  have "\<exists>e'. load_records lib files = Inl e'"
    unfolding files load_records_def load_loop_append
    by (cases "load_loop lib pre []") auto
  then show "\<exists>e'. load_records lib files = Inl e' \<and> dashboard lib files ss sv st = Inl e'"
    by (auto simp: dashboard_def normalized_table_def)
qed

theorem load_aborts_on_parse_failure_witness:
  "load_records example_library [(''securityhub-a.json'', Inr (JDict []))] = Inr [placeholder ''Securityhub''] \<and>
   load_records example_library
     ([(''securityhub-a.json'', Inr (JDict []))] @ (''guardduty-x.json'', Inl JSONDecodeError)
        # [(''inspector-y.json'', Inr (JDict []))]) = Inl JSONDecodeError \<and>
   (''guardduty-x.json'', Inl JSONDecodeError)
     \<in> set [(''securityhub-a.json'', Inr (JDict [])), (''guardduty-x.json'', Inl JSONDecodeError)] \<and>
   dashboard example_library
     [(''securityhub-a.json'', Inr (JDict [])), (''guardduty-x.json'', Inl JSONDecodeError)] [] [] []
     = Inl JSONDecodeError"
  using load_aborts_on_parse_failure
    [where lib = example_library and pre = "[(''securityhub-a.json'', Inr (JDict []))]"
       and rs = "[placeholder ''Securityhub'']" and fname = "''guardduty-x.json''"
       and e = JSONDecodeError and post = "[(''inspector-y.json'', Inr (JDict []))]"
       and files = "[(''securityhub-a.json'', Inr (JDict [])), (''guardduty-x.json'', Inl JSONDecodeError)]"
       and ss = "[]" and sv = "[]" and st = "[]"]
  by (simp add: load_records_def records_of_doc_def dget_def service_name_def basename_def
      split_first_def example_library_def ascii_capitalize_def to_upper_def to_lower_def
      dashboard_def normalized_table_def)

text \<open>
  Claim C1 as stated fails: the second document alone loads and gives its row, but behind an
  unparseable first document it is never extracted: the load, and with it the run, ends with
  the parse error.
\<close>

theorem unparseable_document_counterexample:
  "load_records example_library [(''inspector-y.json'', Inr (JDict []))] = Inr [placeholder ''Inspector''] \<and>
   load_records example_library
     [(''guardduty-x.json'', Inl JSONDecodeError), (''inspector-y.json'', Inr (JDict []))]
   = Inl JSONDecodeError \<and>
   dashboard example_library
     [(''guardduty-x.json'', Inl JSONDecodeError), (''inspector-y.json'', Inr (JDict []))] [] [] []
   = Inl JSONDecodeError"
  by (simp add: dashboard_def normalized_table_def load_records_def records_of_doc_def dget_def
      service_name_def basename_def split_first_def example_library_def ascii_capitalize_def
      to_upper_def to_lower_def)

subsection \<open>C2\<close>

text \<open>
  Claim C2, as the script has it. The extraction of a parsed document returns exactly on the
  shapes of \<open>doc_shape_ok\<close>: the document is a dict, and its findings are falsy or a list
  of dicts whose \<^verbatim>\<open>Workflow\<close> value, when present, is a dict. The severity value plays no
  part in it: \<open>sev_label\<close> returns a label for a value of any type. On every other shape the
  extraction raises \<^verbatim>\<open>AttributeError\<close> or \<^verbatim>\<open>TypeError\<close>.
\<close>

theorem extraction_returns_iff_shape:
  "((\<exists>rs. records_of_doc lib service data = Inr rs) \<longleftrightarrow> doc_shape_ok data)
   \<and> (records_of_doc lib service data = Inl e \<longrightarrow> e = AttributeError \<or> e = TypeError)"
proof (intro conjI impI)
  show "(\<exists>rs. records_of_doc lib service data = Inr rs) \<longleftrightarrow> doc_shape_ok data"
  proof (cases data)
    case (JDict kvs)
    define f where "f = dget kvs ''Findings'' (dget kvs ''findings'' (JList []))"
    show ?thesis
    proof (cases f)
      case (JList elems)
      then show ?thesis using JDict f_def records_of_findings_Inr[of lib service elems]
        by (auto simp: records_of_doc_def doc_shape_ok_def Let_def)
    next
      case (JDict m)
      then show ?thesis using \<open>data = JDict kvs\<close> f_def
          records_of_findings_JStr[of "rev (remdups (rev (map fst m)))" lib service]
        by (auto simp: records_of_doc_def doc_shape_ok_def Let_def)
    next
      case (JStr s)
      then show ?thesis using JDict f_def
          records_of_findings_JStr[of "code_points s" lib service] code_points_nonempty[of s]
        by (auto simp: records_of_doc_def doc_shape_ok_def Let_def)
    qed (use JDict f_def in \<open>auto simp: records_of_doc_def doc_shape_ok_def Let_def\<close>)
  qed (auto simp: records_of_doc_def doc_shape_ok_def)
next
  assume "records_of_doc lib service data = Inl e"
  then show "e = AttributeError \<or> e = TypeError"
    by (auto simp: records_of_doc_def Let_def split: json.splits if_splits sum.splits
        dest: records_of_findings_Inl elim: py_iter.elims)
qed

theorem extraction_returns_iff_shape_witness:
  "doc_shape_ok (JDict [(''Findings'', JList [JDict [(''Severity'', JList [JInt 1])], JDict [(''Severity'', JNull)]])]) \<and>
   (\<exists>rs. records_of_doc example_library ''Guardduty''
      (JDict [(''Findings'', JList [JDict [(''Severity'', JList [JInt 1])], JDict [(''Severity'', JNull)]])]) = Inr rs) \<and>
   \<not> doc_shape_ok (JDict [(''Findings'', JInt 1)]) \<and>
   records_of_doc example_library ''Guardduty'' (JDict [(''Findings'', JInt 1)]) = Inl TypeError"
  using extraction_returns_iff_shape
    [where lib = example_library and service = "''Guardduty''"
       and data = "JDict [(''Findings'', JList [JDict [(''Severity'', JList [JInt 1])], JDict [(''Severity'', JNull)]])]"]
    extraction_returns_iff_shape
    [where lib = example_library and service = "''Guardduty''"
       and data = "JDict [(''Findings'', JInt 1)]" and e = TypeError]
  by (simp add: doc_shape_ok_def finding_shape_ok_def dget_def records_of_doc_def)

text \<open>
  Claim C2 as stated fails: a finding that is not a dict, a \<^verbatim>\<open>Workflow\<close> value that is
  not a dict, findings that are a number, and a document that is not a dict each raise.
\<close>

theorem extraction_raises_counterexample:
  "records_of_doc example_library ''Guardduty'' (JDict [(''Findings'', JList [JInt 1])]) = Inl AttributeError \<and>
   records_of_doc example_library ''Guardduty'' (JDict [(''Findings'', JList [JDict [(''Workflow'', JStr ''NEW'')]])])
     = Inl AttributeError \<and>
   records_of_doc example_library ''Guardduty'' (JDict [(''Findings'', JInt 1)]) = Inl TypeError \<and>
   records_of_doc example_library ''Guardduty'' (JStr ''text'') = Inl AttributeError"
  by (simp add: records_of_doc_def dget_def record_of_finding_def)

subsection \<open>C3\<close>




subsection \<open>C4\<close>

text \<open>
  Claim C4, as the script has it. In every run that shows its page, the workbook is what the
  spreadsheet writer returns for the frame that has one row for each row of the filtered view,
  in the view's order, under all twelve columns of the data frame in the data frame's order,
  with no index column; the ten columns in the fixed order of the claim are those of the frame
  handed to the table on the page.
\<close>

theorem export_is_whole_filtered_frame:
  "dashboard lib files ss sv st = Inr p \<Longrightarrow>
     \<exists>df. normalized_table lib files = Inr df \<and>
       to_excel lib
         \<lparr> header =
             [''Service'', ''Account'', ''Region'', ''Resource'', ''Severity'', ''Title'',
              ''Description'', ''Status'', ''CreatedAt'', ''Team'', ''Fix Timeline'',
              ''Cost to Fix (Est.)''],
           body =
             map (\<lambda>r. [Some (JStr (Service r)), Some (Account r), Some (Region r),
                       Some (JStr (Resource r)), Some (Severity r), Some (Title r),
                       Some (Description r), Some (Status r), Some (CreatedAt r),
                       Some (JStr (Team r)), Some (JStr (Fix_Timeline r)),
                       Some (JStr (Cost_to_Fix r))])
               (apply_filters ss sv st df) \<rparr>
         = Inr (excel p) \<and>
       st_dataframe lib
         \<lparr> header =
             [''Service'', ''Severity'', ''Team'', ''Fix Timeline'', ''Cost to Fix (Est.)'',
              ''Title'', ''Description'', ''Account'', ''Region'', ''Status''],
           body =
             map (\<lambda>r. [Some (JStr (Service r)), Some (Severity r), Some (JStr (Team r)),
                       Some (JStr (Fix_Timeline r)), Some (JStr (Cost_to_Fix r)), Some (Title r),
                       Some (Description r), Some (Account r), Some (Region r), Some (Status r)])
               (apply_filters ss sv st df) \<rparr>
         = Inr (shown p)"
proof -
  assume d: "dashboard lib files ss sv st = Inr p"
  then obtain df where df: "normalized_table lib files = Inr df"
    by (auto simp: dashboard_def split: sum.splits)
  have f: "frame v =
         \<lparr> header =
             [''Service'', ''Account'', ''Region'', ''Resource'', ''Severity'', ''Title'',
              ''Description'', ''Status'', ''CreatedAt'', ''Team'', ''Fix Timeline'',
              ''Cost to Fix (Est.)''],
           body =
             map (\<lambda>r. [Some (JStr (Service r)), Some (Account r), Some (Region r),
                       Some (JStr (Resource r)), Some (Severity r), Some (Title r),
                       Some (Description r), Some (Status r), Some (CreatedAt r),
                       Some (JStr (Team r)), Some (JStr (Fix_Timeline r)),
                       Some (JStr (Cost_to_Fix r))]) v \<rparr>" for v
    by (simp add: frame_def select_columns_def df_columns_def cell_def)
  have t: "display_table v =
         \<lparr> header =
             [''Service'', ''Severity'', ''Team'', ''Fix Timeline'', ''Cost to Fix (Est.)'',
              ''Title'', ''Description'', ''Account'', ''Region'', ''Status''],
           body =
             map (\<lambda>r. [Some (JStr (Service r)), Some (Severity r), Some (JStr (Team r)),
                       Some (JStr (Fix_Timeline r)), Some (JStr (Cost_to_Fix r)), Some (Title r),
                       Some (Description r), Some (Account r), Some (Region r), Some (Status r)]) v \<rparr>" for v
    by (simp add: display_table_def select_columns_def cell_def)
  from d df have
    "to_excel lib (frame (apply_filters ss sv st df)) = Inr (excel p)"
    "st_dataframe lib (display_table (apply_filters ss sv st df)) = Inr (shown p)"
    by (auto simp: dashboard_def Let_def split: sum.splits)
  then show ?thesis using df by (simp add: f t)
qed

theorem export_is_whole_filtered_frame_witness:
  "dashboard example_library
     [(''guardduty-x.json'', Inr (JDict [(''Findings'', JList [JDict [(''Severity'', JFloat (Finite (46 / 5)))]])])),
      (''inspector-y.json'', Inr (JDict []))]
     [] [JStr ''CRITICAL''] []
   = Inr \<lparr> total = 1, critical = 1, high = 0, medium_low = 0,
           shown =
             \<lparr> header =
                 [''Service'', ''Severity'', ''Team'', ''Fix Timeline'', ''Cost to Fix (Est.)'',
                  ''Title'', ''Description'', ''Account'', ''Region'', ''Status''],
               body =
                 [[Some (JStr ''Guardduty''), Some (JStr ''CRITICAL''), Some (JStr ''CAPSA Team''),
                   Some (JStr ''5 Days''), Some (JStr ''$250/hour''),
                   Some (JStr ''Finding from Guardduty''), Some (JStr ''''), Some (JStr ''''),
                   Some (JStr ''us-east-2''), Some (JStr ''ACTIVE'')]] \<rparr>,
           excel =
             \<lparr> header =
                 [''Service'', ''Account'', ''Region'', ''Resource'', ''Severity'', ''Title'',
                  ''Description'', ''Status'', ''CreatedAt'', ''Team'', ''Fix Timeline'',
                  ''Cost to Fix (Est.)''],
               body =
                 [[Some (JStr ''Guardduty''), Some (JStr ''''), Some (JStr ''us-east-2''),
                   Some (JStr ''''), Some (JStr ''CRITICAL''),
                   Some (JStr ''Finding from Guardduty''), Some (JStr ''''),
                   Some (JStr ''ACTIVE''), Some (JStr ''''), Some (JStr ''CAPSA Team''),
                   Some (JStr ''5 Days''), Some (JStr ''$250/hour'')]] \<rparr> \<rparr>"
  using export_is_whole_filtered_frame
    [where lib = example_library
       and files = "[(''guardduty-x.json'', Inr (JDict [(''Findings'', JList [JDict [(''Severity'', JFloat (Finite (46 / 5)))]])])),
      (''inspector-y.json'', Inr (JDict []))]"
       and ss = "[]" and sv = "[JStr ''CRITICAL'']" and st = "[]"]
  by (simp add: dashboard_def normalized_table_def load_records_def records_of_doc_def dget_def
      record_of_finding_def sev_label_def service_name_def basename_def split_first_def
      example_library_def ascii_capitalize_def to_upper_def to_lower_def build_table_def
      DataFrame_def upper_severity_def placeholder_def derive_columns_def fix_timeline_def
      fix_cost_def team_map_def add_columns_def apply_filters_def isin_def Let_def
      metric_total_def metric_critical_def metric_high_def metric_medium_low_def
      frame_def display_table_def select_columns_def df_columns_def cell_def)

text \<open>
  Claim C4 as stated fails: the header of the spreadsheet has the twelve columns of the data
  frame, not the ten of the claim.
\<close>

theorem export_columns_counterexample:
  "map_sum id (\<lambda>p. header (excel p))
     (dashboard example_library [(''inspector-y.json'', Inr (JDict []))] [] [] [])
   = Inr [''Service'', ''Account'', ''Region'', ''Resource'', ''Severity'', ''Title'', ''Description'',
          ''Status'', ''CreatedAt'', ''Team'', ''Fix Timeline'', ''Cost to Fix (Est.)''] \<and>
   map_sum id (\<lambda>p. header (excel p))
     (dashboard example_library [(''inspector-y.json'', Inr (JDict []))] [] [] [])
   \<noteq> Inr [''Service'', ''Severity'', ''Team'', ''Fix Timeline'', ''Cost to Fix (Est.)'', ''Title'',
          ''Description'', ''Account'', ''Region'', ''Status'']"
  by (simp add: dashboard_def normalized_table_def load_records_def records_of_doc_def dget_def
      example_library_def build_table_def DataFrame_def derive_columns_def upper_severity_def
      placeholder_def to_upper_def fix_timeline_def fix_cost_def to_lower_def
      frame_def select_columns_def df_columns_def Let_def)

subsection \<open>C5\<close>

text \<open>
  Claim C5. For every integer score and every finite float score: at least 8 gives
  \<^verbatim>\<open>Critical\<close>, at least 5 and below 8 gives \<^verbatim>\<open>High\<close>, at least 3 and below 5 gives
  \<^verbatim>\<open>Medium\<close>, below 3 gives \<^verbatim>\<open>Low\<close>; the boundaries 8, 5 and 3 belong to the upper
  branch. The infinite floats follow the same rule.
\<close>

theorem sev_label_numeric_thresholds:
  "(8 \<le> i \<longrightarrow> sev_label lib (JInt i) = JStr ''Critical'') \<and>
   (5 \<le> i \<and> i < 8 \<longrightarrow> sev_label lib (JInt i) = JStr ''High'') \<and>
   (3 \<le> i \<and> i < 5 \<longrightarrow> sev_label lib (JInt i) = JStr ''Medium'') \<and>
   (i < 3 \<longrightarrow> sev_label lib (JInt i) = JStr ''Low'') \<and>
   (8 \<le> x \<longrightarrow> sev_label lib (JFloat (Finite x)) = JStr ''Critical'') \<and>
   (5 \<le> x \<and> x < 8 \<longrightarrow> sev_label lib (JFloat (Finite x)) = JStr ''High'') \<and>
   (3 \<le> x \<and> x < 5 \<longrightarrow> sev_label lib (JFloat (Finite x)) = JStr ''Medium'') \<and>
   (x < 3 \<longrightarrow> sev_label lib (JFloat (Finite x)) = JStr ''Low'') \<and>
   sev_label lib (JFloat PosInf) = JStr ''Critical'' \<and>
   sev_label lib (JFloat NegInf) = JStr ''Low''"
  by (simp add: sev_label_def)

theorem sev_label_numeric_thresholds_witness:
  "sev_label example_library (JInt 8) = JStr ''Critical'' \<and>
   sev_label example_library (JInt 5) = JStr ''High'' \<and>
   sev_label example_library (JInt 3) = JStr ''Medium'' \<and>
   sev_label example_library (JInt 2) = JStr ''Low'' \<and>
   sev_label example_library (JFloat (Finite (46 / 5))) = JStr ''Critical'' \<and>
   sev_label example_library (JFloat (Finite (799 / 100))) = JStr ''High'' \<and>
   sev_label example_library (JFloat (Finite (499 / 100))) = JStr ''Medium'' \<and>
   sev_label example_library (JFloat (Finite (299 / 100))) = JStr ''Low''"
  using sev_label_numeric_thresholds [where lib = example_library and i = 8 and x = "46 / 5"]
    sev_label_numeric_thresholds [where lib = example_library and i = 5 and x = "799 / 100"]
    sev_label_numeric_thresholds [where lib = example_library and i = 3 and x = "499 / 100"]
    sev_label_numeric_thresholds [where lib = example_library and i = 2 and x = "299 / 100"]
  by simp

subsection \<open>C6\<close>

text \<open>
  Claim C6, as the script has it. For a document that is a dict whose findings value (under
  \<^verbatim>\<open>Findings\<close>, else under \<^verbatim>\<open>findings\<close>, else the empty list) is falsy, in particular
  absent or an empty list, the extraction gives exactly one row, the placeholder: severity
  \<^verbatim>\<open>Informational\<close>, status \<^verbatim>\<open>N/A\<close>, title and description built from the service
  name, empty account, resource and creation time. And every document on which the extraction
  returns gives at least one row.
\<close>

theorem placeholder_when_no_findings:
  "(\<not> truthy (dget kvs ''Findings'' (dget kvs ''findings'' (JList []))) \<longrightarrow>
      records_of_doc lib service (JDict kvs) = Inr [placeholder service]) \<and>
   (''Findings'' \<notin> fst ` set kvs \<and> ''findings'' \<notin> fst ` set kvs \<longrightarrow>
      records_of_doc lib service (JDict kvs) = Inr [placeholder service]) \<and>
   Severity (placeholder service) = JStr ''Informational'' \<and>
   Status (placeholder service) = JStr ''N/A'' \<and>
   Title (placeholder service) = JStr (''No critical findings for '' @ service) \<and>
   Description (placeholder service) = JStr (service @ '' data loaded but no security findings reported.'') \<and>
   Account (placeholder service) = JStr '''' \<and>
   Resource (placeholder service) = '''' \<and>
   CreatedAt (placeholder service) = JStr '''' \<and>
   (records_of_doc lib service data = Inr rs \<longrightarrow> rs \<noteq> [])"
proof -
  have a: "\<not> truthy (dget kvs ''Findings'' (dget kvs ''findings'' (JList []))) \<longrightarrow>
      records_of_doc lib service (JDict kvs) = Inr [placeholder service]"
    by (simp add: records_of_doc_def Let_def)
  have b: "''Findings'' \<notin> fst ` set kvs \<and> ''findings'' \<notin> fst ` set kvs \<longrightarrow>
      records_of_doc lib service (JDict kvs) = Inr [placeholder service]"
    by (simp add: records_of_doc_def Let_def dget_absent)
  have c: "records_of_doc lib service data = Inr rs \<longrightarrow> rs \<noteq> []"
  proof
    assume ok: "records_of_doc lib service data = Inr rs"
    then obtain m where m: "data = JDict m"
      by (cases data) (auto simp: records_of_doc_def)
    define f where "f = dget m ''Findings'' (dget m ''findings'' (JList []))"
    show "rs \<noteq> []"
    proof (cases "truthy f")
      case False
      then show ?thesis using ok m f_def by (auto simp: records_of_doc_def Let_def)
    next
      case True
      then obtain elems where "py_iter f = Inr elems" "records_of_findings lib service elems = Inr rs"
        using ok m f_def by (auto simp: records_of_doc_def Let_def split: sum.splits)
      moreover from this True have "elems \<noteq> []"
        by (cases f) (auto simp: code_points_nonempty)
      ultimately show ?thesis by (auto dest: records_of_findings_nonempty)
    qed
  qed
  show ?thesis using a b c by (simp add: placeholder_def)
qed

theorem placeholder_when_no_findings_witness:
  "\<not> truthy (dget [(''findings'', JList [])] ''Findings'' (dget [(''findings'', JList [])] ''findings'' (JList []))) \<and>
   records_of_doc example_library ''Inspector'' (JDict [(''findings'', JList [])]) = Inr [placeholder ''Inspector''] \<and>
   ''Findings'' \<notin> fst ` set [(''detail'', JInt 1)] \<and> ''findings'' \<notin> fst ` set [(''detail'', JInt 1)] \<and>
   records_of_doc example_library ''Inspector'' (JDict [(''detail'', JInt 1)]) = Inr [placeholder ''Inspector''] \<and>
   [placeholder ''Inspector''] \<noteq> []"
  using placeholder_when_no_findings
    [where lib = example_library and service = "''Inspector''" and kvs = "[(''findings'', JList [])]"
       and data = "JDict [(''findings'', JList [])]" and rs = "[placeholder ''Inspector'']"]
    placeholder_when_no_findings
    [where lib = example_library and service = "''Inspector''" and kvs = "[(''detail'', JInt 1)]"
       and data = "JDict [(''detail'', JInt 1)]" and rs = "[placeholder ''Inspector'']"]
  by (simp add: dget_def)

text \<open>
  Claim C6 as stated fails: a document that parses to an empty list has no findings list, and
  it gives no row: the extraction raises, and so does the load.
\<close>

theorem non_mapping_document_counterexample:
  "records_of_doc example_library ''Detective'' (JList []) = Inl AttributeError \<and>
   load_records example_library [(''detective-graph.json'', Inr (JList []))] = Inl AttributeError"
  by (simp add: records_of_doc_def load_records_def)

subsection \<open>C7\<close>

text \<open>
  Claim C7. The filtered view is the table restricted to the rows that, for each non-empty
  selection, have their cell in the selection: a row is in the view iff it is in the table and
  passes each non-empty selection; the view is a subsequence of the table, so the order of the
  surviving rows is kept; with three empty selections the view is the table.
\<close>

theorem apply_filters_contract:
  "apply_filters ss sv st df =
     filter (\<lambda>r. (ss \<noteq> [] \<longrightarrow> Service r \<in> set ss) \<and> (sv \<noteq> [] \<longrightarrow> Severity r \<in> set sv)
               \<and> (st \<noteq> [] \<longrightarrow> Team r \<in> set st)) df
   \<and> (r \<in> set (apply_filters ss sv st df) \<longleftrightarrow>
        r \<in> set df \<and> (ss \<noteq> [] \<longrightarrow> Service r \<in> set ss) \<and> (sv \<noteq> [] \<longrightarrow> Severity r \<in> set sv)
        \<and> (st \<noteq> [] \<longrightarrow> Team r \<in> set st))
   \<and> subseq (apply_filters ss sv st df) df
   \<and> apply_filters [] [] [] df = df"
proof -
  have eq: "apply_filters ss sv st df =
     filter (\<lambda>r. (ss \<noteq> [] \<longrightarrow> Service r \<in> set ss) \<and> (sv \<noteq> [] \<longrightarrow> Severity r \<in> set sv)
               \<and> (st \<noteq> [] \<longrightarrow> Team r \<in> set st)) df" for ss sv st
    by (auto simp: apply_filters_def isin_def Let_def intro: filter_cong)
  show ?thesis
    by (simp add: eq)
qed

theorem apply_filters_contract_witness:
  "apply_filters [] [JStr ''CRITICAL''] []
     [add_columns ((placeholder ''A'')\<lparr>Severity := JStr ''CRITICAL''\<rparr>) (''Others'', ''5 Days'', ''$250/hour''),
      add_columns ((placeholder ''B'')\<lparr>Severity := JStr ''HIGH''\<rparr>) (''Others'', ''1 Week'', ''$150/hour''),
      add_columns ((placeholder ''C'')\<lparr>Severity := JStr ''CRITICAL''\<rparr>) (''Others'', ''5 Days'', ''$250/hour''),
      add_columns ((placeholder ''D'')\<lparr>Severity := JStr ''LOW''\<rparr>) (''Others'', ''3 Weeks'', ''$25/hour''),
      add_columns ((placeholder ''E'')\<lparr>Severity := JStr ''HIGH''\<rparr>) (''Others'', ''1 Week'', ''$150/hour''),
      add_columns ((placeholder ''F'')\<lparr>Severity := JStr ''CRITICAL''\<rparr>) (''Others'', ''5 Days'', ''$250/hour'')]
   = [add_columns ((placeholder ''A'')\<lparr>Severity := JStr ''CRITICAL''\<rparr>) (''Others'', ''5 Days'', ''$250/hour''),
      add_columns ((placeholder ''C'')\<lparr>Severity := JStr ''CRITICAL''\<rparr>) (''Others'', ''5 Days'', ''$250/hour''),
      add_columns ((placeholder ''F'')\<lparr>Severity := JStr ''CRITICAL''\<rparr>) (''Others'', ''5 Days'', ''$250/hour'')]"
  using apply_filters_contract
    [where ss = "[]" and sv = "[JStr ''CRITICAL'']" and st = "[]" and df =
     "[add_columns ((placeholder ''A'')\<lparr>Severity := JStr ''CRITICAL''\<rparr>) (''Others'', ''5 Days'', ''$250/hour''),
      add_columns ((placeholder ''B'')\<lparr>Severity := JStr ''HIGH''\<rparr>) (''Others'', ''1 Week'', ''$150/hour''),
      add_columns ((placeholder ''C'')\<lparr>Severity := JStr ''CRITICAL''\<rparr>) (''Others'', ''5 Days'', ''$250/hour''),
      add_columns ((placeholder ''D'')\<lparr>Severity := JStr ''LOW''\<rparr>) (''Others'', ''3 Weeks'', ''$25/hour''),
      add_columns ((placeholder ''E'')\<lparr>Severity := JStr ''HIGH''\<rparr>) (''Others'', ''1 Week'', ''$150/hour''),
      add_columns ((placeholder ''F'')\<lparr>Severity := JStr ''CRITICAL''\<rparr>) (''Others'', ''5 Days'', ''$250/hour'')]"]
  by (simp add: add_columns_def placeholder_def)

subsection \<open>C8\<close>

text \<open>
  Claim C8, as the script has it. \<open>team_map\<close>, \<open>fix_timeline\<close> and \<open>fix_cost\<close>
  return the same result on two strings with the same lower-case form, and so on two ASCII
  strings that differ only in letter case, as on \<^verbatim>\<open>GuardDuty\<close> and \<^verbatim>\<open>guardduty\<close>.
  \<open>team_map\<close> returns one of its four values on every value; \<open>fix_timeline\<close> and
  \<open>fix_cost\<close> return one of their five values on every string, the last of them for a
  severity they do not recognise.
\<close>

theorem derived_attributes_case_insensitive:
  "(lower lib s = lower lib t \<longrightarrow>
      team_map lib (JStr s) = team_map lib (JStr t)
      \<and> fix_timeline lib (JStr s) = fix_timeline lib (JStr t)
      \<and> fix_cost lib (JStr s) = fix_cost lib (JStr t)) \<and>
   (python_library lib \<and> ascii s \<and> ascii t \<and> differ_only_in_case lib s t \<longrightarrow>
      team_map lib (JStr s) = team_map lib (JStr t)
      \<and> fix_timeline lib (JStr s) = fix_timeline lib (JStr t)
      \<and> fix_cost lib (JStr s) = fix_cost lib (JStr t)) \<and>
   (python_library lib \<longrightarrow> team_map lib (JStr ''GuardDuty'') = team_map lib (JStr ''guardduty'')) \<and>
   team_map lib v \<in> {''CAPSA Team'', ''BCG Team'', ''Both BCG & CAPSA Team'', ''Others''} \<and>
   fix_timeline lib (JStr s) \<in> Inr ` {''5 Days'', ''1 Week'', ''2 Weeks'', ''3 Weeks'', ''N/A''} \<and>
   fix_cost lib (JStr s) \<in> Inr ` {''$250/hour'', ''$150/hour'', ''$75/hour'', ''$25/hour'', ''Minimal''}"
proof -
  have a: "lower lib s = lower lib t \<Longrightarrow>
      team_map lib (JStr s) = team_map lib (JStr t)
      \<and> fix_timeline lib (JStr s) = fix_timeline lib (JStr t)
      \<and> fix_cost lib (JStr s) = fix_cost lib (JStr t)" for s t
    by (simp add: team_map_def fix_timeline_def fix_cost_def)
  have l: "lower lib s = lower lib t"
    if "python_library lib" "ascii s" "ascii t" "differ_only_in_case lib s t" for s t
  proof -
    from that have "map to_upper s = map to_upper t \<or> map to_lower s = map to_lower t"
      by (auto simp: python_library_def differ_only_in_case_def)
    then have "map to_lower s = map to_lower t" by (auto dest: ascii_upper_lower)
    with that show ?thesis by (simp add: python_library_def)
  qed
  have g: "lower lib ''GuardDuty'' = lower lib ''guardduty''" if "python_library lib"
  proof -
    have "ascii ''GuardDuty''" "ascii ''guardduty''" by (simp_all add: ascii_def)
    with that have "lower lib ''GuardDuty'' = map to_lower ''GuardDuty''"
      "lower lib ''guardduty'' = map to_lower ''guardduty''"
      by (simp_all add: python_library_def)
    then show ?thesis by (simp add: to_lower_def)
  qed
  have c: "team_map lib v \<in> {''CAPSA Team'', ''BCG Team'', ''Both BCG & CAPSA Team'', ''Others''}"
    by (simp add: team_map_def Let_def)
  have d: "fix_timeline lib (JStr s) \<in> Inr ` {''5 Days'', ''1 Week'', ''2 Weeks'', ''3 Weeks'', ''N/A''}"
    by (simp add: fix_timeline_def)
  have e: "fix_cost lib (JStr s) \<in> Inr ` {''$250/hour'', ''$150/hour'', ''$75/hour'', ''$25/hour'', ''Minimal''}"
    by (simp add: fix_cost_def)
  show ?thesis using a[of s t] a[OF l, of s t] a[OF g] c d e by blast
qed

theorem derived_attributes_case_insensitive_witness:
  "python_library example_library \<and> ascii ''GuardDuty'' \<and> ascii ''guardduty'' \<and>
   differ_only_in_case example_library ''GuardDuty'' ''guardduty'' \<and>
   lower example_library ''GuardDuty'' = lower example_library ''guardduty'' \<and>
   team_map example_library (JStr ''GuardDuty'') = ''CAPSA Team'' \<and>
   team_map example_library (JStr ''guardduty'') = ''CAPSA Team'' \<and>
   differ_only_in_case example_library ''High'' ''HIGH'' \<and>
   fix_timeline example_library (JStr ''High'') = Inr ''1 Week'' \<and>
   fix_timeline example_library (JStr ''HIGH'') = Inr ''1 Week'' \<and>
   fix_cost example_library (JStr ''High'') = Inr ''$150/hour'' \<and>
   fix_cost example_library (JStr ''HIGH'') = Inr ''$150/hour''"
  using derived_attributes_case_insensitive
      [where lib = example_library and s = "''GuardDuty''" and t = "''guardduty''"]
    derived_attributes_case_insensitive
      [where lib = example_library and s = "''High''" and t = "''HIGH''"]
    python_library_example
  by (simp add: differ_only_in_case_def ascii_def example_library_def to_upper_def to_lower_def
      team_map_def fix_timeline_def fix_cost_def)

text \<open>
  Claim C8 as stated fails. \<^verbatim>\<open>HIGH\<close> and the same word in lower case with a dotless i
  (U+0131) have the same upper-case form, yet the first gets the timeline and cost of
  \<^verbatim>\<open>high\<close> and the second the defaults, since the lower-case forms differ. And on a cell
  that is not a string, such as the \<^verbatim>\<open>NaN\<close> that line 76 leaves, \<open>fix_timeline\<close> and
  \<open>fix_cost\<close> raise.
\<close>

theorem case_and_totality_counterexample:
  "differ_only_in_case example_library ''HIGH'' [CHR ''h'', CHR 0xC4, CHR 0xB1, CHR ''g'', CHR ''h''] \<and>
   fix_timeline example_library (JStr ''HIGH'') = Inr ''1 Week'' \<and>
   fix_timeline example_library (JStr [CHR ''h'', CHR 0xC4, CHR 0xB1, CHR ''g'', CHR ''h'']) = Inr ''N/A'' \<and>
   fix_cost example_library (JStr ''HIGH'') = Inr ''$150/hour'' \<and>
   fix_cost example_library (JStr [CHR ''h'', CHR 0xC4, CHR 0xB1, CHR ''g'', CHR ''h'']) = Inr ''Minimal'' \<and>
   fix_timeline example_library (JFloat NaN) = Inl AttributeError \<and>
   fix_cost example_library (JFloat NaN) = Inl AttributeError"
  by (simp add: differ_only_in_case_def example_library_def to_upper_def to_lower_def
      fix_timeline_def fix_cost_def)

subsection \<open>C9\<close>

text \<open>
  Claim C9. In a table that the run builds, the row of a placeholder record has severity
  \<^verbatim>\<open>INFORMATIONAL\<close>, fix timeline \<^verbatim>\<open>N/A\<close> and cost \<^verbatim>\<open>Minimal\<close>. This holds with
  every library that converts the case of ASCII text as Python does and stores a string as it
  is.
\<close>

theorem placeholder_gets_fallback_values:
  "python_library lib \<Longrightarrow> build_table lib records = Inr df \<Longrightarrow> i < length records \<Longrightarrow>
     records ! i = placeholder service \<Longrightarrow>
     Severity (df ! i) = JStr ''INFORMATIONAL'' \<and> Fix_Timeline (df ! i) = ''N/A''
     \<and> Cost_to_Fix (df ! i) = ''Minimal''"
proof -
  assume lib: "python_library lib" and bt: "build_table lib records = Inr df"
    and i: "i < length records" and p: "records ! i = placeholder service"
  from build_table_rows(2)[OF bt i] obtain s where
    s: "stored lib (map Severity records) (Severity (records ! i)) = JStr s"
    and sev: "Severity (df ! i) = JStr (upper lib s)"
    and tl: "fix_timeline lib (JStr (upper lib s)) = Inr (Fix_Timeline (df ! i))"
    and cs: "fix_cost lib (JStr (upper lib s)) = Inr (Cost_to_Fix (df ! i))"
    by blast
  from s p lib have "s = ''Informational''"
    by (simp add: placeholder_def python_library_def)
  moreover have "ascii ''Informational''" "ascii ''INFORMATIONAL''" by (simp_all add: ascii_def)
  ultimately have u: "upper lib s = ''INFORMATIONAL''"
    and l: "lower lib ''INFORMATIONAL'' = ''informational''"
    using lib by (simp_all add: python_library_def to_upper_def to_lower_def)
  from tl cs sev show ?thesis
    unfolding u by (simp add: fix_timeline_def fix_cost_def l)
qed

theorem placeholder_gets_fallback_values_witness:
  "python_library example_library \<and>
   build_table example_library [placeholder ''Inspector''] =
     Inr [add_columns ((placeholder ''Inspector'')\<lparr>Severity := JStr ''INFORMATIONAL''\<rparr>)
            (''BCG Team'', ''N/A'', ''Minimal'')] \<and>
   (0::nat) < length [placeholder ''Inspector''] \<and>
   [placeholder ''Inspector''] ! 0 = placeholder ''Inspector'' \<and>
   Fix_Timeline ([add_columns ((placeholder ''Inspector'')\<lparr>Severity := JStr ''INFORMATIONAL''\<rparr>)
            (''BCG Team'', ''N/A'', ''Minimal'')] ! 0) = ''N/A'' \<and>
   Cost_to_Fix ([add_columns ((placeholder ''Inspector'')\<lparr>Severity := JStr ''INFORMATIONAL''\<rparr>)
            (''BCG Team'', ''N/A'', ''Minimal'')] ! 0) = ''Minimal''"
  using placeholder_gets_fallback_values
    [where lib = example_library and records = "[placeholder ''Inspector'']" and i = 0
       and service = "''Inspector''"
       and df = "[add_columns ((placeholder ''Inspector'')\<lparr>Severity := JStr ''INFORMATIONAL''\<rparr>)
            (''BCG Team'', ''N/A'', ''Minimal'')]"]
    python_library_example
  by (simp add: build_table_def DataFrame_def derive_columns_def upper_severity_def placeholder_def
      example_library_def to_upper_def fix_timeline_def fix_cost_def to_lower_def team_map_def
      add_columns_def)

subsection \<open>C10\<close>

text \<open>
  Claim C10. The counts of critical, high and medium-or-low rows of a view sum to at most
  its total, and to less than the total exactly when the view has a row whose severity is
  none of \<^verbatim>\<open>CRITICAL\<close>, \<^verbatim>\<open>HIGH\<close>, \<^verbatim>\<open>MEDIUM\<close>, \<^verbatim>\<open>LOW\<close>.
\<close>

theorem metrics_sum_vs_total:
  "metric_critical v + metric_high v + metric_medium_low v \<le> metric_total v \<and>
   (metric_critical v + metric_high v + metric_medium_low v < metric_total v \<longleftrightarrow>
      (\<exists>r \<in> set v. Severity r \<notin> {JStr ''CRITICAL'', JStr ''HIGH'', JStr ''MEDIUM'', JStr ''LOW''}))"
  unfolding metric_critical_def metric_high_def metric_medium_low_def metric_total_def isin_def
  by (induction v) auto

theorem metrics_sum_vs_total_witness:
  "metric_critical
     [add_columns ((placeholder ''A'')\<lparr>Severity := JStr ''CRITICAL''\<rparr>) (''Others'', ''5 Days'', ''$250/hour''),
      add_columns ((placeholder ''B'')\<lparr>Severity := JStr ''INFORMATIONAL''\<rparr>) (''Others'', ''N/A'', ''Minimal'')]
   + metric_high
     [add_columns ((placeholder ''A'')\<lparr>Severity := JStr ''CRITICAL''\<rparr>) (''Others'', ''5 Days'', ''$250/hour''),
      add_columns ((placeholder ''B'')\<lparr>Severity := JStr ''INFORMATIONAL''\<rparr>) (''Others'', ''N/A'', ''Minimal'')]
   + metric_medium_low
     [add_columns ((placeholder ''A'')\<lparr>Severity := JStr ''CRITICAL''\<rparr>) (''Others'', ''5 Days'', ''$250/hour''),
      add_columns ((placeholder ''B'')\<lparr>Severity := JStr ''INFORMATIONAL''\<rparr>) (''Others'', ''N/A'', ''Minimal'')]
   = 1 \<and>
   metric_total
     [add_columns ((placeholder ''A'')\<lparr>Severity := JStr ''CRITICAL''\<rparr>) (''Others'', ''5 Days'', ''$250/hour''),
      add_columns ((placeholder ''B'')\<lparr>Severity := JStr ''INFORMATIONAL''\<rparr>) (''Others'', ''N/A'', ''Minimal'')]
   = 2 \<and>
   (\<exists>r \<in> set
     [add_columns ((placeholder ''A'')\<lparr>Severity := JStr ''CRITICAL''\<rparr>) (''Others'', ''5 Days'', ''$250/hour''),
      add_columns ((placeholder ''B'')\<lparr>Severity := JStr ''INFORMATIONAL''\<rparr>) (''Others'', ''N/A'', ''Minimal'')].
      Severity r \<notin> {JStr ''CRITICAL'', JStr ''HIGH'', JStr ''MEDIUM'', JStr ''LOW''})"
  using metrics_sum_vs_total
    [where v =
     "[add_columns ((placeholder ''A'')\<lparr>Severity := JStr ''CRITICAL''\<rparr>) (''Others'', ''5 Days'', ''$250/hour''),
      add_columns ((placeholder ''B'')\<lparr>Severity := JStr ''INFORMATIONAL''\<rparr>) (''Others'', ''N/A'', ''Minimal'')]"]
  by (simp add: metric_critical_def metric_high_def metric_medium_low_def metric_total_def isin_def
      add_columns_def placeholder_def)

end
